theory Spec2Isabelle
  imports Main
begin

section \<open>The workspace delete handler\<close>

text \<open>
  A shallow embedding of the class \<open>WorkspaceDeleteHandler\<close> (the command handler that
  deletes the selected files of a workspace after a confirmation dialog). The handler is
  glue: it calls the URI class, the application shell, the widget namespaces, the
  confirmation dialog and the file system. Those collaborators live outside the handler's
  source, so they are the fields of a record that every handler function takes as its
  first argument; the handler's own control flow is translated line by line.
\<close>

subsection \<open>Values the handler builds\<close>

text \<open>
  The DOM fragment of a confirmation message. \<open>textContent\<close> is the text assigned to
  the element, \<open>listStyleType\<close> the one style property the handler sets and
  \<open>children\<close> the elements appended with \<open>appendChild\<close>, in order.
\<close>

datatype html_element =
  HTMLElement (tagName: string) (textContent: string) (listStyleType: string)
    (children: "html_element list")

definition createElement :: "string \<Rightarrow> html_element" where
  "createElement tag = HTMLElement tag [] [] []"

fun set_textContent :: "html_element \<Rightarrow> string \<Rightarrow> html_element" where
  "set_textContent (HTMLElement tag _ sty cs) txt = HTMLElement tag txt sty cs"

fun set_listStyleType :: "html_element \<Rightarrow> string \<Rightarrow> html_element" where
  "set_listStyleType (HTMLElement tag txt _ cs) sty = HTMLElement tag txt sty cs"

fun appendChild :: "html_element \<Rightarrow> html_element \<Rightarrow> html_element" where
  "appendChild (HTMLElement tag txt sty cs) c = HTMLElement tag txt sty (cs @ [c])"

text \<open>The type \<open>string | HTMLElement\<close> of a confirmation message.\<close>

datatype message = Text string | Html html_element

text \<open>
  A template literal renders an array length (a natural number below \<open>2^32\<close>) in
  decimal, without leading zeros.
\<close>

definition digit_char :: "nat \<Rightarrow> char" where
  "digit_char d = char_of (48 + d)"

function string_of_nat :: "nat \<Rightarrow> string" where
  "string_of_nat n =
     (if n < 10 then [digit_char n] else string_of_nat (n div 10) @ [digit_char (n mod 10)])"
  by pat_completeness auto
termination
  by (relation "measure id") auto

text \<open>Reading such a rendering back, to say what \<open>string_of_nat\<close> prints.\<close>

definition digit_value :: "char \<Rightarrow> nat" where
  "digit_value c = of_char c - 48"

definition nat_of_string :: "string \<Rightarrow> nat" where
  "nat_of_string cs = foldl (\<lambda>n c. 10 * n + digit_value c) 0 cs"

text \<open>
  \<open>Map<string, URI>\<close>: \<open>set\<close> overwrites the value of a key that is present and
  leaves it at its place, and appends a key that is new; \<open>values()\<close> iterates in
  insertion order.
\<close>

fun Map_set :: "(string \<times> 'a) list \<Rightarrow> string \<Rightarrow> 'a \<Rightarrow> (string \<times> 'a) list" where
  "Map_set [] k v = [(k, v)]"
| "Map_set ((k', v') # m) k v = (if k' = k then (k, v) # m else (k', v') # Map_set m k v)"

definition Map_values :: "(string \<times> 'a) list \<Rightarrow> 'a list" where
  "Map_values m = map snd m"

subsection \<open>Collaborators and effects\<close>

text \<open>
  What the handler does to the outside, in the order it does it: it opens a confirmation
  dialog with a title and a message, it calls \<open>closeWithoutSaving()\<close> or \<open>close()\<close>
  on a widget, it calls \<open>fileSystem.delete\<close> with a URI string, and it writes a caught
  error to \<open>console.error\<close>.
\<close>

datatype ('w, 'e) event =
  ConfirmDialogOpen string message
| WidgetCloseWithoutSaving 'w
| WidgetClose 'w
| FileSystemDelete string
| ConsoleError 'e

text \<open>
  The collaborators of the handler. \<open>'uri\<close> is the class \<open>URI\<close>, \<open>'w\<close> a widget of
  the shell, \<open>'e\<close> the value a rejected promise carries and \<open>'fs\<close> the state of the
  file system behind \<open>FileSystem\<close>.
  \<^item> \<open>uri_toString\<close>, \<open>uri_path_base\<close>: \<open>uri.toString()\<close> and \<open>uri.path.base\<close>;
  \<^item> \<open>URI_getDistinctParents\<close>: the static \<open>URI.getDistinctParents\<close>;
  \<^item> \<open>workspaceUtils_containsRootDirectory\<close>: \<open>WorkspaceUtils.containsRootDirectory\<close>;
  \<^item> \<open>shell_widgets\<close>: \<open>this.shell.widgets\<close>;
  \<^item> \<open>NavigatableWidget_getAffected\<close>: the pairs \<open>[resourceUri, widget]\<close> that
    \<open>NavigatableWidget.getAffected(widgets, context)\<close> iterates over; the context is a
    URI array, and a single URI \<open>uri\<close> is passed as \<open>[uri]\<close>;
  \<^item> \<open>SaveableWidget_getDirty\<close>, \<open>SaveableWidget_is\<close>: the functions of the namespace
    \<open>SaveableWidget\<close>;
  \<^item> \<open>ConfirmDialog_open\<close>: what \<open>new ConfirmDialog({title, msg}).open()\<close> resolves
    to, \<open>None\<close> for \<open>undefined\<close>;
  \<^item> \<open>fileSystem_delete\<close>: \<open>fileSystem.delete(uri)\<close> on a file-system state, with
    \<open>Inl e\<close> for a promise rejected with \<open>e\<close>, and the state afterwards.
\<close>

record ('uri, 'w, 'e, 'fs) collaborators =
  uri_toString :: "'uri \<Rightarrow> string"
  uri_path_base :: "'uri \<Rightarrow> string"
  URI_getDistinctParents :: "'uri list \<Rightarrow> 'uri list"
  workspaceUtils_containsRootDirectory :: "'uri list \<Rightarrow> bool"
  shell_widgets :: "'w list"
  NavigatableWidget_getAffected :: "'w list \<Rightarrow> 'uri list \<Rightarrow> ('uri \<times> 'w) list"
  SaveableWidget_getDirty :: "'w list \<Rightarrow> 'w list"
  SaveableWidget_is :: "'w \<Rightarrow> bool"
  ConfirmDialog_open :: "string \<Rightarrow> message \<Rightarrow> bool option"
  fileSystem_delete :: "'fs \<Rightarrow> string \<Rightarrow> ('e + unit) \<times> 'fs"

text \<open>
  The state the handler acts on: the file system, and the trace of the effects so far
  (oldest first).
\<close>

record ('w, 'e, 'fs) world =
  fileSystem :: 'fs
  trace :: "('w, 'e) event list"

definition emit :: "('w, 'e) event \<Rightarrow> ('w, 'e, 'fs) world \<Rightarrow> ('w, 'e, 'fs) world" where
  "emit ev s = s\<lparr>trace := trace s @ [ev]\<rparr>"

subsection \<open>The handler\<close>

text \<open>\<open>isVisible\<close> and \<open>isEnabled\<close>; \<open>!!uris.length\<close> is true for a length other than 0.\<close>

definition isVisible :: "('uri, 'w, 'e, 'fs) collaborators \<Rightarrow> 'uri list \<Rightarrow> bool" where
  "isVisible h uris \<longleftrightarrow> length uris \<noteq> 0 \<and> \<not> workspaceUtils_containsRootDirectory h uris"

definition isEnabled :: "('uri, 'w, 'e, 'fs) collaborators \<Rightarrow> 'uri list \<Rightarrow> bool" where
  "isEnabled h uris \<longleftrightarrow> length uris \<noteq> 0 \<and> \<not> workspaceUtils_containsRootDirectory h uris"

text \<open>
  \<open>getDirty\<close>: the resource URIs of the dirty widgets affected by \<open>uris\<close>, one per
  URI string.
\<close>

definition getDirty :: "('uri, 'w, 'e, 'fs) collaborators \<Rightarrow> 'uri list \<Rightarrow> 'uri list" where
  "getDirty h uris =
     (let widgets = NavigatableWidget_getAffected h (SaveableWidget_getDirty h (shell_widgets h)) uris;
          dirty = foldl (\<lambda>dirty (resourceUri, _). Map_set dirty (uri_toString h resourceUri) resourceUri)
                    [] widgets
      in Map_values dirty)"

text \<open>\<open>getConfirmMessage\<close>, branch by branch.\<close>

definition getConfirmMessage :: "('uri, 'w, 'e, 'fs) collaborators \<Rightarrow> 'uri list \<Rightarrow> message" where
  "getConfirmMessage h uris =
     (let dirty = getDirty h uris in
      if length dirty \<noteq> 0 then
        (if length dirty = 1 then
           Text (''Do you really want to delete '' @ uri_path_base h (dirty ! 0) @
                 '' with unsaved changes?'')
         else
           Text (''Do you really want to delete '' @ string_of_nat (length dirty) @
                 '' files with unsaved changes?''))
      else if length uris = 1 then
        Text (''Do you really want to delete '' @ uri_path_base h (uris ! 0) @ ''?'')
      else if length uris > 10 then
        Text (''Do you really want to delete all the '' @ string_of_nat (length uris) @
              '' selected files?'')
      else
        (let messageContainer =
               set_textContent (createElement ''div'')
                 ''Do you really want to delete the following files?'';
             list = set_listStyleType (createElement ''ul'') ''none'';
             list = foldl (\<lambda>list uri.
                      appendChild list (set_textContent (createElement ''li'') (uri_path_base h uri)))
                      list uris
         in Html (appendChild messageContainer list)))"

text \<open>\<open>confirm\<close>: opens the dialog and yields what it resolves to.\<close>

definition confirm_title :: "'uri list \<Rightarrow> string" where
  "confirm_title uris = ''Delete File'' @ (if length uris = 1 then '''' else ''s'')"

definition confirm ::
  "('uri, 'w, 'e, 'fs) collaborators \<Rightarrow> ('w, 'e, 'fs) world \<Rightarrow> 'uri list
     \<Rightarrow> bool option \<times> ('w, 'e, 'fs) world" where
  "confirm h s uris =
     (let title = confirm_title uris;
          msg = getConfirmMessage h uris
      in (ConfirmDialog_open h title msg, emit (ConfirmDialogOpen title msg) s))"

text \<open>
  \<open>closeWithoutSaving\<close>: the loop has no \<open>await\<close>, so although the method is
  \<open>async\<close> and \<open>delete\<close> does not await it, its whole body has run when the call
  returns.
\<close>

definition closeWithoutSaving ::
  "('uri, 'w, 'e, 'fs) collaborators \<Rightarrow> ('w, 'e, 'fs) world \<Rightarrow> 'uri \<Rightarrow> ('w, 'e, 'fs) world" where
  "closeWithoutSaving h s uri =
     foldl (\<lambda>s (_, widget).
              if SaveableWidget_is h widget then emit (WidgetCloseWithoutSaving widget) s
              else emit (WidgetClose widget) s)
       s (NavigatableWidget_getAffected h (shell_widgets h) [uri])"

text \<open>
  \<open>delete\<close>: the first component is how the returned promise settles, \<open>Inl e\<close> for a
  rejection with \<open>e\<close>. The \<open>catch\<close> clause turns a rejection of
  \<open>fileSystem.delete\<close> into a \<open>console.error\<close>.
\<close>

definition delete ::
  "('uri, 'w, 'e, 'fs) collaborators \<Rightarrow> ('w, 'e, 'fs) world \<Rightarrow> 'uri
     \<Rightarrow> ('e + unit) \<times> ('w, 'e, 'fs) world" where
  "delete h s uri =
     (let s = closeWithoutSaving h s uri;
          s = emit (FileSystemDelete (uri_toString h uri)) s;
          (r, fs) = fileSystem_delete h (fileSystem s) (uri_toString h uri);
          s = s\<lparr>fileSystem := fs\<rparr>
      in case r of
           Inl e \<Rightarrow> (Inr (), emit (ConsoleError e) s)
         | Inr _ \<Rightarrow> (Inr (), s))"

text \<open>
  \<open>Promise.all(xs.map(f))\<close>: \<open>map\<close> starts \<open>f\<close> on every element, in order, whatever
  the earlier promises do; the result is rejected when one of them is. The deletions run
  concurrently in the source; the model lets each settle before the next starts, in
  the order \<open>map\<close> starts them.
\<close>

fun Promise_all_map ::
  "('s \<Rightarrow> 'a \<Rightarrow> ('e + unit) \<times> 's) \<Rightarrow> 's \<Rightarrow> 'a list \<Rightarrow> ('e + unit) \<times> 's" where
  "Promise_all_map f s [] = (Inr (), s)"
| "Promise_all_map f s (x # xs) =
     (let (r, s) = f s x;
          (rs, s) = Promise_all_map f s xs
      in (case r of Inl e \<Rightarrow> Inl e | Inr _ \<Rightarrow> rs, s))"

text \<open>\<open>execute\<close>: the condition of the \<open>if\<close> holds for \<open>true\<close> only.\<close>

definition execute ::
  "('uri, 'w, 'e, 'fs) collaborators \<Rightarrow> ('w, 'e, 'fs) world \<Rightarrow> 'uri list
     \<Rightarrow> ('e + unit) \<times> ('w, 'e, 'fs) world" where
  "execute h s uris =
     (let distinctUris = URI_getDistinctParents h uris;
          (confirmed, s) = confirm h s distinctUris
      in if confirmed = Some True then Promise_all_map (delete h) s distinctUris
         else (Inr (), s))"

subsection \<open>Reading a trace\<close>

text \<open>The URI strings \<open>fileSystem.delete\<close> was called with, in order.\<close>

fun deleteCalls :: "('w, 'e) event list \<Rightarrow> string list" where
  "deleteCalls [] = []"
| "deleteCalls (FileSystemDelete p # evs) = p # deleteCalls evs"
| "deleteCalls (_ # evs) = deleteCalls evs"

text \<open>The widgets closed, by either call, in order.\<close>

fun closeCalls :: "('w, 'e) event list \<Rightarrow> 'w list" where
  "closeCalls [] = []"
| "closeCalls (WidgetCloseWithoutSaving w # evs) = w # closeCalls evs"
| "closeCalls (WidgetClose w # evs) = w # closeCalls evs"
| "closeCalls (_ # evs) = closeCalls evs"

text \<open>The errors written to the console, in order.\<close>

fun consoleErrors :: "('w, 'e) event list \<Rightarrow> 'e list" where
  "consoleErrors [] = []"
| "consoleErrors (ConsoleError e # evs) = e # consoleErrors evs"
| "consoleErrors (_ # evs) = consoleErrors evs"

text \<open>The dialogs opened, in order.\<close>

fun dialogsOpened :: "('w, 'e) event list \<Rightarrow> (string \<times> message) list" where
  "dialogsOpened [] = []"
| "dialogsOpened (ConfirmDialogOpen title msg # evs) = (title, msg) # dialogsOpened evs"
| "dialogsOpened (_ # evs) = dialogsOpened evs"

subsection \<open>The collaborators as the specification describes them\<close>

text \<open>
  Modelled from the spec: the class \<open>URI\<close> is not part of the handler's source. A
  ResourceId is "a path-like string"; here it is the list of its path segments, its
  string form joins them with slashes and its base name is the last one.
\<close>

type_synonym resourceId = "string list"

definition resourceId_toString :: "resourceId \<Rightarrow> string" where
  "resourceId_toString r = concat (map (\<lambda>seg. CHR ''/'' # seg) r)"

definition resourceId_base :: "resourceId \<Rightarrow> string" where
  "resourceId_base r = (if r = [] then [] else last r)"

text \<open>
  Modelled from the spec: the ancestry between resource identifiers is not part of the
  handler's source. A resource is an ancestor of the resources strictly below it.
\<close>

fun isAncestorOf :: "resourceId \<Rightarrow> resourceId \<Rightarrow> bool" where
  "isAncestorOf [] [] = False"
| "isAncestorOf [] (y # ys) = True"
| "isAncestorOf (x # xs) [] = False"
| "isAncestorOf (x # xs) (y # ys) = (x = y \<and> isAncestorOf xs ys)"

text \<open>
  Modelled from the spec: \<open>URI.getDistinctParents\<close> is not part of the handler's source.
  The distinct-parents reduction "drop[s] any identifier that is a descendant of another
  identifier in the same selection". The ancestry is a parameter: the reduction is the
  same for every notion of it.
\<close>

definition reduceToDistinctRoots :: "('r \<Rightarrow> 'r \<Rightarrow> bool) \<Rightarrow> 'r list \<Rightarrow> 'r list" where
  "reduceToDistinctRoots ancestorOf selection =
     filter (\<lambda>r. \<not> list_ex (\<lambda>other. ancestorOf other r) selection) selection"

text \<open>
  Modelled from the spec: \<open>WorkspaceUtils.containsRootDirectory\<close> is not part of the
  handler's source. A selection is ineligible when one of "the selected resources is a
  workspace root".
\<close>

definition containsWorkspaceRoot :: "'r list \<Rightarrow> 'r list \<Rightarrow> bool" where
  "containsWorkspaceRoot roots selection = list_ex (\<lambda>r. r \<in> set roots) selection"

text \<open>
  Modelled from the spec: the widgets and the namespaces \<open>NavigatableWidget\<close> and
  \<open>SaveableWidget\<close> are not part of the handler's source. A view of the ViewRegistry
  has an associated resource, may hold unsaved changes, and may support a discarding
  close; the views affected by a resource are those "bound to that resource (including
  views for descendant resources)". Each affected view comes with its own associated
  resource, the \<open>resourceUri\<close> of the pairs the handler iterates over.
\<close>

record view =
  associatedResource :: resourceId
  hasUnsavedChanges :: bool
  supportsDiscardClose :: bool

definition affectedViews :: "view list \<Rightarrow> resourceId list \<Rightarrow> (resourceId \<times> view) list" where
  "affectedViews views selection =
     map (\<lambda>v. (associatedResource v, v))
       (filter (\<lambda>v. list_ex (\<lambda>r. r = associatedResource v \<or> isAncestorOf r (associatedResource v))
                       selection) views)"

definition dirtyViews :: "view list \<Rightarrow> view list" where
  "dirtyViews views = filter hasUnsavedChanges views"

text \<open>
  Modelled from the spec: the \<open>FileSystem\<close> service is not part of the handler's source.
  The storage holds the strings of the resources that exist; deleting one that does
  not exist fails with an I/O-style error ("not found").
\<close>

type_synonym storage = "string list"

definition storage_delete :: "storage \<Rightarrow> string \<Rightarrow> (string + unit) \<times> storage" where
  "storage_delete st p =
     (if p \<in> set st then (Inr (), removeAll p st) else (Inl ''not found'', st))"

text \<open>
  A workbench with the given workspace roots and open views, whose user gives the same
  answer to every confirmation dialog.
\<close>

definition workbench ::
  "resourceId list \<Rightarrow> view list \<Rightarrow> bool option
     \<Rightarrow> (resourceId, view, string, storage) collaborators" where
  "workbench roots views answer =
     \<lparr> uri_toString = resourceId_toString,
       uri_path_base = resourceId_base,
       URI_getDistinctParents = reduceToDistinctRoots isAncestorOf,
       workspaceUtils_containsRootDirectory = containsWorkspaceRoot roots,
       shell_widgets = views,
       NavigatableWidget_getAffected = affectedViews,
       SaveableWidget_getDirty = dirtyViews,
       SaveableWidget_is = supportsDiscardClose,
       ConfirmDialog_open = (\<lambda>title msg. answer),
       fileSystem_delete = storage_delete \<rparr>"

subsection \<open>A sample workbench\<close>

text \<open>
  A workspace \<open>/ws\<close> with two files and a folder, an editor on \<open>/ws/A\<close> with unsaved
  changes, a second one on \<open>/ws/B\<close>, and a preview of a file of the folder that cannot be
  saved.
\<close>

definition workspaceRoot :: resourceId where
  "workspaceRoot = [''ws'']"

definition fileA :: resourceId where
  "fileA = [''ws'', ''A'']"

definition fileB :: resourceId where
  "fileB = [''ws'', ''B'']"

definition folderDocs :: resourceId where
  "folderDocs = [''ws'', ''docs'']"

definition fileReadme :: resourceId where
  "fileReadme = [''ws'', ''docs'', ''readme'']"

definition editorA :: view where
  "editorA = \<lparr> associatedResource = [''ws'', ''A''], hasUnsavedChanges = True,
                supportsDiscardClose = True \<rparr>"

definition editorB :: view where
  "editorB = \<lparr> associatedResource = [''ws'', ''B''], hasUnsavedChanges = True,
                supportsDiscardClose = True \<rparr>"

definition previewReadme :: view where
  "previewReadme = \<lparr> associatedResource = [''ws'', ''docs'', ''readme''],
                      hasUnsavedChanges = False, supportsDiscardClose = False \<rparr>"

definition emptyTrace :: "storage \<Rightarrow> (view, string, storage) world" where
  "emptyTrace st = \<lparr> fileSystem = st, trace = [] \<rparr>"

section \<open>Properties\<close>

subsection \<open>Traces\<close>

declare string_of_nat.simps [simp del]

lemma trace_emit: "trace (emit ev s) = trace s @ [ev]"
  by (simp add: emit_def)

lemma fileSystem_emit: "fileSystem (emit ev s) = fileSystem s"
  by (simp add: emit_def)

lemma deleteCalls_append: "deleteCalls (xs @ ys) = deleteCalls xs @ deleteCalls ys"
  by (induction xs rule: deleteCalls.induct) simp_all

lemma closeCalls_append: "closeCalls (xs @ ys) = closeCalls xs @ closeCalls ys"
  by (induction xs rule: closeCalls.induct) simp_all

lemma consoleErrors_append: "consoleErrors (xs @ ys) = consoleErrors xs @ consoleErrors ys"
  by (induction xs rule: consoleErrors.induct) simp_all

lemma dialogsOpened_append: "dialogsOpened (xs @ ys) = dialogsOpened xs @ dialogsOpened ys"
  by (induction xs rule: dialogsOpened.induct) simp_all

lemma closeWithoutSaving_loop:
  "foldl (\<lambda>s (_, widget).
            if P widget then emit (WidgetCloseWithoutSaving widget) s
            else emit (WidgetClose widget) s) s ps =
   s\<lparr>trace := trace s @
        map (\<lambda>w. if P w then WidgetCloseWithoutSaving w else WidgetClose w) (map snd ps)\<rparr>"
proof (induction ps arbitrary: s)
  case Nil
  show ?case by simp
next
  case (Cons p ps)
  show ?case
    by (cases p) (simp add: Cons.IH emit_def)
qed

lemma closeWithoutSaving_eq:
  "closeWithoutSaving h s uri =
   s\<lparr>trace := trace s @
        map (\<lambda>w. if SaveableWidget_is h w then WidgetCloseWithoutSaving w else WidgetClose w)
          (map snd (NavigatableWidget_getAffected h (shell_widgets h) [uri]))\<rparr>"
  unfolding closeWithoutSaving_def by (rule closeWithoutSaving_loop)

lemma fst_delete: "fst (delete h s uri) = Inr ()"
  by (simp add: delete_def Let_def split: prod.split sum.split)

lemma trace_delete:
  "trace (snd (delete h s uri)) =
   trace s @
   map (\<lambda>w. if SaveableWidget_is h w then WidgetCloseWithoutSaving w else WidgetClose w)
     (map snd (NavigatableWidget_getAffected h (shell_widgets h) [uri])) @
   FileSystemDelete (uri_toString h uri) #
   (case fst (fileSystem_delete h (fileSystem s) (uri_toString h uri)) of
      Inl e \<Rightarrow> [ConsoleError e] | Inr _ \<Rightarrow> [])"
  by (simp add: delete_def Let_def closeWithoutSaving_eq emit_def split: prod.split sum.split)

lemma fileSystem_delete_eq:
  "fileSystem (snd (delete h s uri)) =
   snd (fileSystem_delete h (fileSystem s) (uri_toString h uri))"
  by (simp add: delete_def Let_def closeWithoutSaving_eq emit_def split: prod.split sum.split)

lemma deleteCalls_none:
  "(\<And>p. FileSystemDelete p \<notin> set evs) \<Longrightarrow> deleteCalls evs = []"
  by (induction evs rule: deleteCalls.induct) auto

lemma consoleErrors_none:
  "(\<And>e. ConsoleError e \<notin> set evs) \<Longrightarrow> consoleErrors evs = []"
  by (induction evs rule: consoleErrors.induct) auto

lemma deleteCalls_closes:
  "deleteCalls (map (\<lambda>w. if P w then WidgetCloseWithoutSaving w else WidgetClose w) ws) = []"
  by (rule deleteCalls_none) auto

lemma consoleErrors_closes:
  "consoleErrors (map (\<lambda>w. if P w then WidgetCloseWithoutSaving w else WidgetClose w) ws) = []"
  by (rule consoleErrors_none) auto

lemma deleteCalls_delete:
  "deleteCalls (trace (snd (delete h s uri))) = deleteCalls (trace s) @ [uri_toString h uri]"
  unfolding trace_delete deleteCalls_append deleteCalls_closes
  by (simp split: sum.split)

lemma consoleErrors_delete:
  "consoleErrors (trace (snd (delete h s uri))) =
   consoleErrors (trace s) @
   (case fst (fileSystem_delete h (fileSystem s) (uri_toString h uri)) of
      Inl e \<Rightarrow> [e] | Inr _ \<Rightarrow> [])"
  unfolding trace_delete consoleErrors_append consoleErrors_closes
  by (simp split: sum.split)

lemma Promise_all_map_Cons:
  "Promise_all_map f s (x # xs) =
   (case fst (f s x) of Inl e \<Rightarrow> Inl e | Inr _ \<Rightarrow> fst (Promise_all_map f (snd (f s x)) xs),
    snd (Promise_all_map f (snd (f s x)) xs))"
  by (simp add: case_prod_beta Let_def)

lemma fst_Promise_all_map_delete: "fst (Promise_all_map (delete h) s uris) = Inr ()"
proof (induction uris arbitrary: s)
  case Nil
  show ?case by simp
next
  case (Cons u us)
  show ?case
    unfolding Promise_all_map_Cons by (simp add: fst_delete Cons.IH)
qed

lemma deleteCalls_Promise_all_map_delete:
  "deleteCalls (trace (snd (Promise_all_map (delete h) s uris))) =
   deleteCalls (trace s) @ map (uri_toString h) uris"
proof (induction uris arbitrary: s)
  case Nil
  show ?case by simp
next
  case (Cons u us)
  show ?case
    unfolding Promise_all_map_Cons by (simp add: Cons.IH deleteCalls_delete)
qed

lemma execute_eq:
  "execute h s uris =
   (let distinctUris = URI_getDistinctParents h uris;
        title = confirm_title distinctUris;
        msg = getConfirmMessage h distinctUris;
        s' = emit (ConfirmDialogOpen title msg) s
    in if ConfirmDialog_open h title msg = Some True
       then Promise_all_map (delete h) s' distinctUris
       else (Inr (), s'))"
  by (simp add: execute_def confirm_def Let_def)

subsection \<open>Numbers in messages\<close>

text \<open>\<open>string_of_nat\<close> prints the decimal digits of its argument: reading them back gives it.\<close>

lemma digit_value_digit_char: "d < 10 \<Longrightarrow> digit_value (digit_char d) = d"
  by (simp add: digit_value_def digit_char_def)

lemma nat_of_string_snoc: "nat_of_string (cs @ [c]) = 10 * nat_of_string cs + digit_value c"
  by (simp add: nat_of_string_def)

lemma nat_of_string_of_nat: "nat_of_string (string_of_nat n) = n"
proof (induction n rule: string_of_nat.induct)
  case (1 n)
  show ?case
  proof (cases "n < 10")
    case True
    then show ?thesis
      by (simp add: string_of_nat.simps [of n] nat_of_string_def digit_value_digit_char)
  next
    case False
    with "1.IH" have "nat_of_string (string_of_nat (n div 10)) = n div 10"
      by simp
    with False show ?thesis
      by (simp add: string_of_nat.simps [of n] nat_of_string_snoc digit_value_digit_char)
  qed
qed

lemma string_of_nat_inject: "string_of_nat m = string_of_nat n \<Longrightarrow> m = n"
  by (metis nat_of_string_of_nat)

subsection \<open>The dirty resources\<close>

lemma keys_Map_set:
  "map fst (Map_set m k v) = (if k \<in> fst ` set m then map fst m else map fst m @ [k])"
  by (induction m) (fastforce simp add: image_iff)+

lemma distinct_Map_set: "distinct (map fst m) \<Longrightarrow> distinct (map fst (Map_set m k v))"
  by (simp add: keys_Map_set)

lemma fst_set_Map_set: "fst ` set (Map_set m k v) = insert k (fst ` set m)"
  using arg_cong [OF keys_Map_set [of m k v], of set] by (auto split: if_splits)

lemma set_Map_set_subset: "set (Map_set m k v) \<subseteq> insert (k, v) (set m)"
  by (induction m) (auto split: if_splits)

lemma getDirty_loop_distinct:
  "distinct (map fst m) \<Longrightarrow>
   distinct (map fst (foldl (\<lambda>dirty (resourceUri, _). Map_set dirty (f resourceUri) resourceUri)
     m widgets))"
proof (induction widgets arbitrary: m)
  case Nil
  then show ?case by simp
next
  case (Cons p ps)
  obtain r w where p: "p = (r, w)" by (cases p)
  from Cons.prems have "distinct (map fst (Map_set m (f r) r))"
    by (rule distinct_Map_set)
  then show ?case
    unfolding p by (simp add: Cons.IH)
qed

lemma getDirty_loop_keys:
  "(\<And>e. e \<in> set m \<Longrightarrow> fst e = f (snd e)) \<Longrightarrow>
   e \<in> set (foldl (\<lambda>dirty (resourceUri, _). Map_set dirty (f resourceUri) resourceUri)
     m widgets) \<Longrightarrow> fst e = f (snd e)"
proof (induction widgets arbitrary: m)
  case Nil
  then show ?case by simp
next
  case (Cons p ps)
  obtain r w where p: "p = (r, w)" by (cases p)
  have step: "fst e' = f (snd e')" if "e' \<in> set (Map_set m (f r) r)" for e'
    using that set_Map_set_subset [of m "f r" r] Cons.prems(1) by auto
  from Cons.prems(2) have mem:
    "e \<in> set (foldl (\<lambda>dirty (resourceUri, _). Map_set dirty (f resourceUri) resourceUri)
       (Map_set m (f r) r) ps)"
    unfolding p by simp
  from step mem show ?case
    by (rule Cons.IH)
qed

lemma getDirty_loop_strings:
  "fst ` set (foldl (\<lambda>dirty (resourceUri, _). Map_set dirty (f resourceUri) resourceUri)
     m widgets) = fst ` set m \<union> f ` fst ` set widgets"
proof (induction widgets arbitrary: m)
  case Nil
  show ?case by simp
next
  case (Cons p ps)
  obtain r w where p: "p = (r, w)" by (cases p)
  show ?case
    unfolding p by (simp add: Cons.IH fst_set_Map_set)
qed

lemma getDirty_loop_values:
  "snd ` set (foldl (\<lambda>dirty (resourceUri, _). Map_set dirty (f resourceUri) resourceUri)
     m widgets) \<subseteq> snd ` set m \<union> fst ` set widgets"
proof (induction widgets arbitrary: m)
  case Nil
  show ?case by simp
next
  case (Cons p ps)
  obtain r w where p: "p = (r, w)" by (cases p)
  have "snd ` set (Map_set m (f r) r) \<subseteq> insert r (snd ` set m)"
    using set_Map_set_subset [of m "f r" r] by auto
  with Cons.IH [of "Map_set m (f r) r"] show ?case
    unfolding p by auto
qed

text \<open>
  The dirty resources: each is the resource of an affected dirty widget, every such
  resource is among them up to its URI string, and no two of them have the same URI
  string.
\<close>

lemma getDirty_subset:
  "set (getDirty h uris) \<subseteq>
   fst ` set (NavigatableWidget_getAffected h (SaveableWidget_getDirty h (shell_widgets h)) uris)"
  using getDirty_loop_values [where m = "[]" and f = "uri_toString h" and widgets =
    "NavigatableWidget_getAffected h (SaveableWidget_getDirty h (shell_widgets h)) uris"]
  by (simp add: getDirty_def Map_values_def)

lemma getDirty_strings:
  "uri_toString h ` set (getDirty h uris) =
   uri_toString h ` fst ` set (NavigatableWidget_getAffected h
      (SaveableWidget_getDirty h (shell_widgets h)) uris)"
proof -
  let ?ws = "NavigatableWidget_getAffected h (SaveableWidget_getDirty h (shell_widgets h)) uris"
  let ?m = "foldl (\<lambda>dirty (resourceUri, _). Map_set dirty (uri_toString h resourceUri) resourceUri)
    [] ?ws"
  have "fst e = uri_toString h (snd e)" if "e \<in> set ?m" for e
    using that by (rule getDirty_loop_keys [rotated]) simp
  then have "uri_toString h ` snd ` set ?m = fst ` set ?m"
    by (force simp add: image_iff)
  then show ?thesis
    by (simp add: getDirty_def Map_values_def getDirty_loop_strings)
qed

lemma getDirty_distinct: "distinct (map (uri_toString h) (getDirty h uris))"
proof -
  let ?ws = "NavigatableWidget_getAffected h (SaveableWidget_getDirty h (shell_widgets h)) uris"
  let ?m = "foldl (\<lambda>dirty (resourceUri, _). Map_set dirty (uri_toString h resourceUri) resourceUri)
    [] ?ws"
  have "fst e = uri_toString h (snd e)" if "e \<in> set ?m" for e
    using that by (rule getDirty_loop_keys [rotated]) simp
  then have "map (uri_toString h) (map snd ?m) = map fst ?m"
    by simp
  moreover have "distinct (map fst ?m)"
    by (rule getDirty_loop_distinct) simp
  ultimately show ?thesis
    by (simp add: getDirty_def Map_values_def del: map_map)
qed

subsection \<open>The list of a message\<close>

lemma list_items_loop:
  "foldl (\<lambda>list uri. appendChild list (HTMLElement ''li'' (f uri) [] []))
     (HTMLElement tag txt sty cs) uris =
   HTMLElement tag txt sty (cs @ map (\<lambda>uri. HTMLElement ''li'' (f uri) [] []) uris)"
  by (induction uris arbitrary: cs) simp_all

lemma getConfirmMessage_list:
  "Html (appendChild
     (set_textContent (createElement ''div'')
        ''Do you really want to delete the following files?'')
     (foldl (\<lambda>list uri.
               appendChild list (set_textContent (createElement ''li'') (f uri)))
        (set_listStyleType (createElement ''ul'') ''none'') uris)) =
   Html (HTMLElement ''div'' ''Do you really want to delete the following files?'' []
          [HTMLElement ''ul'' [] ''none'' (map (\<lambda>uri. HTMLElement ''li'' (f uri) [] []) uris)])"
  by (simp add: createElement_def list_items_loop)

lemma string_of_nat_2: "string_of_nat 2 = ''2''"
  by code_simp

lemma string_of_nat_11: "string_of_nat 11 = ''11''"
  by code_simp

subsection \<open>Declining the dialog\<close>

text \<open>
  C1. Whatever the selection, when the confirmation dialog resolves to anything but
  \<open>true\<close> (to \<open>false\<close>, or to \<open>undefined\<close> as on dismissal), \<open>execute\<close> is
  fulfilled without an error and all it has done is open the dialog: it has not called
  \<open>fileSystem.delete\<close>, closed no widget, logged nothing and left the file system as
  it was.
\<close>

theorem execute_declined:
  assumes "ConfirmDialog_open h (confirm_title (URI_getDistinctParents h uris))
             (getConfirmMessage h (URI_getDistinctParents h uris)) \<noteq> Some True"
  shows "fst (execute h s uris) = Inr () \<and>
         trace (snd (execute h s uris)) =
           trace s @ [ConfirmDialogOpen (confirm_title (URI_getDistinctParents h uris))
                        (getConfirmMessage h (URI_getDistinctParents h uris))] \<and>
         deleteCalls (trace (snd (execute h s uris))) = deleteCalls (trace s) \<and>
         closeCalls (trace (snd (execute h s uris))) = closeCalls (trace s) \<and>
         consoleErrors (trace (snd (execute h s uris))) = consoleErrors (trace s) \<and>
         fileSystem (snd (execute h s uris)) = fileSystem s"
  using assms
  by (simp add: execute_eq Let_def trace_emit fileSystem_emit deleteCalls_append
      closeCalls_append consoleErrors_append)

text \<open>The user dismisses the dialog that asks about the two files.\<close>

theorem execute_declined_witness:
  "ConfirmDialog_open (workbench [] [editorA] None)
     (confirm_title (URI_getDistinctParents (workbench [] [editorA] None) [fileA, fileB]))
     (getConfirmMessage (workbench [] [editorA] None)
        (URI_getDistinctParents (workbench [] [editorA] None) [fileA, fileB])) \<noteq> Some True \<and>
   execute (workbench [] [editorA] None) (emptyTrace [''/ws/A'', ''/ws/B'']) [fileA, fileB] =
   (Inr (),
    \<lparr> fileSystem = [''/ws/A'', ''/ws/B''],
      trace = [ConfirmDialogOpen ''Delete Files''
                 (Text ''Do you really want to delete A with unsaved changes?'')] \<rparr>)"
proof -
  let ?h = "workbench [] [editorA] None"
  have declined: "ConfirmDialog_open ?h t m \<noteq> Some True" for t m
    by (simp add: workbench_def)
  have reduced: "URI_getDistinctParents ?h [fileA, fileB] = [fileA, fileB]"
    by (simp add: workbench_def reduceToDistinctRoots_def fileA_def fileB_def)
  have msg: "getConfirmMessage ?h [fileA, fileB] =
      Text ''Do you really want to delete A with unsaved changes?''"
    by (simp add: workbench_def getConfirmMessage_def getDirty_def affectedViews_def
        dirtyViews_def Map_values_def fileA_def fileB_def editorA_def
        resourceId_toString_def resourceId_base_def)
  have title: "confirm_title [fileA, fileB] = ''Delete Files''"
    by (simp add: confirm_title_def)
  show ?thesis
    using execute_declined [where h = ?h and uris = "[fileA, fileB]"
        and s = "emptyTrace [''/ws/A'', ''/ws/B'']"]
    unfolding reduced msg title
    by (simp add: declined prod_eq_iff emptyTrace_def)
qed

subsection \<open>Failing deletions\<close>

text \<open>
  C2. The promise of \<open>delete\<close> is never rejected: when \<open>fileSystem.delete\<close> fails
  with \<open>e\<close>, the error is caught and \<open>e\<close> is written to the console, and when it
  succeeds nothing is written. So in a confirmed \<open>execute\<close> no failure stops the
  others: \<open>fileSystem.delete\<close> is called once for each resource of the reduced
  selection, in order, whichever of the calls fail, and \<open>execute\<close> is fulfilled.
\<close>

theorem delete_failures_independent:
  assumes "ConfirmDialog_open h (confirm_title (URI_getDistinctParents h uris))
             (getConfirmMessage h (URI_getDistinctParents h uris)) = Some True"
  shows "fst (delete h s' uri) = Inr () \<and>
         consoleErrors (trace (snd (delete h s' uri))) =
           consoleErrors (trace s') @
           (case fst (fileSystem_delete h (fileSystem s') (uri_toString h uri)) of
              Inl e \<Rightarrow> [e] | Inr _ \<Rightarrow> []) \<and>
         fst (execute h s uris) = Inr () \<and>
         deleteCalls (trace (snd (execute h s uris))) =
           deleteCalls (trace s) @ map (uri_toString h) (URI_getDistinctParents h uris)"
  using assms
  by (simp add: fst_delete consoleErrors_delete execute_eq Let_def
      fst_Promise_all_map_delete deleteCalls_Promise_all_map_delete trace_emit
      deleteCalls_append)

text \<open>
  Of the two files only \<open>/ws/B\<close> exists: deleting \<open>/ws/A\<close> fails, is logged, and
  \<open>/ws/B\<close> is deleted all the same.
\<close>

theorem delete_failures_independent_witness:
  "ConfirmDialog_open (workbench [] [] (Some True))
     (confirm_title (URI_getDistinctParents (workbench [] [] (Some True)) [fileA, fileB]))
     (getConfirmMessage (workbench [] [] (Some True))
        (URI_getDistinctParents (workbench [] [] (Some True)) [fileA, fileB])) = Some True \<and>
   fst (fileSystem_delete (workbench [] [] (Some True)) [''/ws/B''] ''/ws/A'') = Inl ''not found'' \<and>
   fst (execute (workbench [] [] (Some True)) (emptyTrace [''/ws/B'']) [fileA, fileB]) = Inr () \<and>
   deleteCalls (trace (snd (execute (workbench [] [] (Some True)) (emptyTrace [''/ws/B''])
      [fileA, fileB]))) = [''/ws/A'', ''/ws/B''] \<and>
   consoleErrors (trace (snd (execute (workbench [] [] (Some True)) (emptyTrace [''/ws/B''])
      [fileA, fileB]))) = [''not found''] \<and>
   fileSystem (snd (execute (workbench [] [] (Some True)) (emptyTrace [''/ws/B''])
      [fileA, fileB])) = []"
proof -
  let ?h = "workbench [] [] (Some True)"
  have confirmed: "ConfirmDialog_open ?h t m = Some True" for t m
    by (simp add: workbench_def)
  have reduced: "URI_getDistinctParents ?h [fileA, fileB] = [fileA, fileB]"
    by (simp add: workbench_def reduceToDistinctRoots_def fileA_def fileB_def)
  have strings: "uri_toString ?h fileA = ''/ws/A''" "uri_toString ?h fileB = ''/ws/B''"
    by (simp_all add: workbench_def resourceId_toString_def fileA_def fileB_def)
  have storage: "fileSystem_delete ?h = storage_delete"
    by (simp add: workbench_def)
  have none: "NavigatableWidget_getAffected ?h (shell_widgets ?h) us = []" for us
    by (simp add: workbench_def affectedViews_def)
  have run: "execute ?h (emptyTrace [''/ws/B'']) [fileA, fileB] =
    (Inr (), \<lparr> fileSystem = [],
       trace = [ConfirmDialogOpen (confirm_title [fileA, fileB]) (getConfirmMessage ?h [fileA, fileB]),
                FileSystemDelete ''/ws/A'', ConsoleError ''not found'',
                FileSystemDelete ''/ws/B''] \<rparr>)"
    by (simp add: execute_eq reduced confirmed Let_def delete_def closeWithoutSaving_def none
        strings storage storage_delete_def emit_def emptyTrace_def)
  show ?thesis
    using delete_failures_independent [where h = ?h and uris = "[fileA, fileB]"
        and s = "emptyTrace [''/ws/B'']" and s' = "emptyTrace [''/ws/B'']" and uri = fileA]
    by (simp add: confirmed run storage storage_delete_def)
qed

subsection \<open>The confirmation message\<close>

text \<open>
  C3. When \<open>getDirty\<close> finds a dirty resource, the message is the one about unsaved
  changes, whatever the selection and its size: with exactly one dirty resource \<open>d\<close> it
  is "Do you really want to delete \<open>base name of d\<close> with unsaved changes?", and with more
  than one it gives their number, in decimal, and no name.
\<close>

theorem getConfirmMessage_dirty:
  "(getDirty h uris = [d] \<longrightarrow>
      getConfirmMessage h uris =
        Text (''Do you really want to delete '' @ uri_path_base h d @
              '' with unsaved changes?'')) \<and>
   (1 < length (getDirty h uris) \<longrightarrow>
      getConfirmMessage h uris =
        Text (''Do you really want to delete '' @ string_of_nat (length (getDirty h uris)) @
              '' files with unsaved changes?''))"
  by (simp add: getConfirmMessage_def Let_def)

text \<open>
  One dirty editor on the selected file; then two dirty editors among three selected
  resources.
\<close>

theorem getConfirmMessage_dirty_witness:
  "getDirty (workbench [] [editorA] None) [fileA] = [fileA] \<and>
   getConfirmMessage (workbench [] [editorA] None) [fileA] =
     Text ''Do you really want to delete A with unsaved changes?'' \<and>
   1 < length (getDirty (workbench [] [editorA, previewReadme, editorB, editorA] None)
                 [fileA, folderDocs, fileB]) \<and>
   getConfirmMessage (workbench [] [editorA, previewReadme, editorB, editorA] None)
       [fileA, folderDocs, fileB] =
     Text ''Do you really want to delete 2 files with unsaved changes?''"
proof -
  have one: "getDirty (workbench [] [editorA] None) [fileA] = [fileA]"
    by (simp add: workbench_def getDirty_def affectedViews_def dirtyViews_def Map_values_def
        fileA_def editorA_def resourceId_toString_def)
  have two: "getDirty (workbench [] [editorA, previewReadme, editorB, editorA] None)
      [fileA, folderDocs, fileB] = [fileA, fileB]"
    by (simp add: workbench_def getDirty_def affectedViews_def dirtyViews_def Map_values_def
        fileA_def fileB_def folderDocs_def editorA_def editorB_def previewReadme_def
        resourceId_toString_def)
  have base: "uri_path_base (workbench [] [editorA] None) fileA = ''A''"
    by (simp add: workbench_def resourceId_base_def fileA_def)
  have count: "length (getDirty (workbench [] [editorA, previewReadme, editorB, editorA] None)
      [fileA, folderDocs, fileB]) = 2"
    by (simp add: two)
  have msg1: "getConfirmMessage (workbench [] [editorA] None) [fileA] =
      Text ''Do you really want to delete A with unsaved changes?''"
    using getConfirmMessage_dirty [where h = "workbench [] [editorA] None"
        and uris = "[fileA]" and d = fileA]
    by (simp add: one base)
  have msg2: "getConfirmMessage (workbench [] [editorA, previewReadme, editorB, editorA] None)
      [fileA, folderDocs, fileB] =
      Text ''Do you really want to delete 2 files with unsaved changes?''"
    using getConfirmMessage_dirty
        [where h = "workbench [] [editorA, previewReadme, editorB, editorA] None"
        and uris = "[fileA, folderDocs, fileB]"]
    unfolding count by (simp add: string_of_nat_2)
  from one count msg1 msg2 show ?thesis
    by simp
qed

text \<open>
  C4. When \<open>getDirty\<close> finds nothing, the message depends on the number of selected
  resources only: one resource \<open>u\<close> gives "Do you really want to delete
  \<open>base name of u\<close>?"; more than ten give the number of resources, in decimal, and no
  name; every other number (two to ten, and none) gives a \<open>div\<close> with the question and
  a list of one \<open>li\<close> per resource, holding its base name, in the order of the
  selection.
\<close>

theorem getConfirmMessage_clean:
  assumes "getDirty h uris = []"
  shows "(uris = [u] \<longrightarrow>
            getConfirmMessage h uris =
              Text (''Do you really want to delete '' @ uri_path_base h u @ ''?'')) \<and>
         (10 < length uris \<longrightarrow>
            getConfirmMessage h uris =
              Text (''Do you really want to delete all the '' @ string_of_nat (length uris) @
                    '' selected files?'')) \<and>
         (length uris \<noteq> 1 \<and> length uris \<le> 10 \<longrightarrow>
            getConfirmMessage h uris =
              Html (HTMLElement ''div'' ''Do you really want to delete the following files?'' []
                     [HTMLElement ''ul'' [] ''none''
                        (map (\<lambda>uri. HTMLElement ''li'' (uri_path_base h uri) [] []) uris)]))"
proof -
  from assms have clean: "length (getDirty h uris) = 0"
    by simp
  have one: "getConfirmMessage h [u] =
      Text (''Do you really want to delete '' @ uri_path_base h u @ ''?'')"
    if "uris = [u]"
    using clean that by (simp add: getConfirmMessage_def Let_def)
  have many: "getConfirmMessage h uris =
      Text (''Do you really want to delete all the '' @ string_of_nat (length uris) @
            '' selected files?'')"
    if "10 < length uris"
    using clean that by (simp add: getConfirmMessage_def Let_def)
  have few: "getConfirmMessage h uris =
      Html (HTMLElement ''div'' ''Do you really want to delete the following files?'' []
             [HTMLElement ''ul'' [] ''none''
                (map (\<lambda>uri. HTMLElement ''li'' (uri_path_base h uri) [] []) uris)])"
    if "length uris \<noteq> 1" "length uris \<le> 10"
    using clean that
    by (simp add: getConfirmMessage_def Let_def getConfirmMessage_list del: One_nat_def)
  from one many few show ?thesis
    by blast
qed

text \<open>One clean file, two clean files, and eleven.\<close>

theorem getConfirmMessage_clean_witness:
  "getDirty (workbench [] [] None) [fileA] = [] \<and>
   getConfirmMessage (workbench [] [] None) [fileA] =
     Text ''Do you really want to delete A?'' \<and>
   getDirty (workbench [] [] None) [fileA, fileB] = [] \<and>
   getConfirmMessage (workbench [] [] None) [fileA, fileB] =
     Html (HTMLElement ''div'' ''Do you really want to delete the following files?'' []
            [HTMLElement ''ul'' [] ''none''
               [HTMLElement ''li'' ''A'' [] [], HTMLElement ''li'' ''B'' [] []]]) \<and>
   getDirty (workbench [] [] None) (replicate 11 fileA) = [] \<and>
   getConfirmMessage (workbench [] [] None) (replicate 11 fileA) =
     Text ''Do you really want to delete all the 11 selected files?''"
proof -
  let ?h = "workbench [] [] None"
  have clean: "getDirty ?h us = []" for us
    by (simp add: workbench_def getDirty_def affectedViews_def dirtyViews_def Map_values_def)
  have base: "uri_path_base ?h fileA = ''A''" "uri_path_base ?h fileB = ''B''"
    by (simp_all add: workbench_def resourceId_base_def fileA_def fileB_def)
  show ?thesis
    using getConfirmMessage_clean [OF clean, where uris = "[fileA]" and u = fileA]
      getConfirmMessage_clean [OF clean, where uris = "[fileA, fileB]"]
      getConfirmMessage_clean [OF clean, where uris = "replicate 11 fileA"]
    by (simp add: clean base string_of_nat_11)
qed

subsection \<open>Eligibility\<close>

text \<open>
  C5. With \<open>containsRootDirectory\<close> as the specification describes it (some selected
  resource is a workspace root), \<open>isEnabled\<close> and \<open>isVisible\<close> hold exactly for the
  selections that are not empty and contain no workspace root.
\<close>

theorem isEnabled_iff_nonempty_without_root:
  assumes "workspaceUtils_containsRootDirectory h = containsWorkspaceRoot roots"
  shows "(isEnabled h uris \<longleftrightarrow> uris \<noteq> [] \<and> (\<forall>uri \<in> set uris. uri \<notin> set roots)) \<and>
         (isVisible h uris \<longleftrightarrow> uris \<noteq> [] \<and> (\<forall>uri \<in> set uris. uri \<notin> set roots))"
  using assms
  by (simp add: isEnabled_def isVisible_def containsWorkspaceRoot_def list_ex_iff)

text \<open>
  In the workspace \<open>/ws\<close>: two files are eligible, a selection with the root is not, and
  neither is the empty selection.
\<close>

theorem isEnabled_iff_nonempty_without_root_witness:
  "workspaceUtils_containsRootDirectory (workbench [workspaceRoot] [] None) =
     containsWorkspaceRoot [workspaceRoot] \<and>
   isEnabled (workbench [workspaceRoot] [] None) [fileA, fileB] \<and>
   isVisible (workbench [workspaceRoot] [] None) [fileA, fileB] \<and>
   \<not> isEnabled (workbench [workspaceRoot] [] None) [fileA, workspaceRoot] \<and>
   \<not> isVisible (workbench [workspaceRoot] [] None) [fileA, workspaceRoot] \<and>
   \<not> isEnabled (workbench [workspaceRoot] [] None) [] \<and>
   \<not> isVisible (workbench [workspaceRoot] [] None) []"
proof -
  let ?h = "workbench [workspaceRoot] [] None"
  have roots: "workspaceUtils_containsRootDirectory ?h = containsWorkspaceRoot [workspaceRoot]"
    by (simp add: workbench_def)
  have eligible: "isEnabled ?h [fileA, fileB] \<and> isVisible ?h [fileA, fileB]"
    using isEnabled_iff_nonempty_without_root [OF roots, of "[fileA, fileB]"]
    by (simp add: fileA_def fileB_def workspaceRoot_def)
  have with_root: "\<not> isEnabled ?h [fileA, workspaceRoot] \<and> \<not> isVisible ?h [fileA, workspaceRoot]"
    using isEnabled_iff_nonempty_without_root [OF roots, of "[fileA, workspaceRoot]"]
    by simp
  have empty: "\<not> isEnabled ?h [] \<and> \<not> isVisible ?h []"
    using isEnabled_iff_nonempty_without_root [OF roots, of "[]"]
    by simp
  from roots eligible with_root empty show ?thesis
    by simp
qed

text \<open>
  C8. \<open>isVisible\<close> and \<open>isEnabled\<close> are one predicate: they agree on every selection,
  whatever the collaborators.
\<close>

theorem isVisible_eq_isEnabled: "isVisible h uris \<longleftrightarrow> isEnabled h uris"
  by (simp add: isVisible_def isEnabled_def)

theorem isVisible_eq_isEnabled_witness:
  "isVisible (workbench [workspaceRoot] [] None) [fileA] =
   isEnabled (workbench [workspaceRoot] [] None) [fileA]"
  using isVisible_eq_isEnabled [of "workbench [workspaceRoot] [] None" "[fileA]"]
  by simp

subsection \<open>The distinct-parents reduction\<close>

text \<open>
  C9. The reduction of the specification is idempotent, for every notion of ancestry:
  reducing a reduced selection changes nothing (as a list, hence as a set).
\<close>

theorem reduceToDistinctRoots_idempotent:
  "reduceToDistinctRoots ancestorOf (reduceToDistinctRoots ancestorOf selection) =
   reduceToDistinctRoots ancestorOf selection"
proof -
  let ?kept = "reduceToDistinctRoots ancestorOf selection"
  have "\<not> list_ex (\<lambda>other. ancestorOf other r) ?kept" if "r \<in> set ?kept" for r
  proof
    assume "list_ex (\<lambda>other. ancestorOf other r) ?kept"
    then obtain other where "other \<in> set ?kept" and "ancestorOf other r"
      by (auto simp add: list_ex_iff)
    then have "list_ex (\<lambda>other. ancestorOf other r) selection"
      by (auto simp add: reduceToDistinctRoots_def list_ex_iff)
    with that show False
      by (simp add: reduceToDistinctRoots_def)
  qed
  then have "filter (\<lambda>r. \<not> list_ex (\<lambda>other. ancestorOf other r) ?kept) ?kept = ?kept"
    by (simp add: filter_id_conv)
  then show ?thesis
    by (simp add: reduceToDistinctRoots_def [of ancestorOf ?kept])
qed

text \<open>The folder absorbs its file; reducing again keeps the folder and the other file.\<close>

theorem reduceToDistinctRoots_idempotent_witness:
  "reduceToDistinctRoots isAncestorOf [fileReadme, folderDocs, fileB] = [folderDocs, fileB] \<and>
   reduceToDistinctRoots isAncestorOf
     (reduceToDistinctRoots isAncestorOf [fileReadme, folderDocs, fileB]) = [folderDocs, fileB]"
proof -
  have once: "reduceToDistinctRoots isAncestorOf [fileReadme, folderDocs, fileB] =
      [folderDocs, fileB]"
    by (simp add: reduceToDistinctRoots_def fileReadme_def folderDocs_def fileB_def)
  show ?thesis
    using reduceToDistinctRoots_idempotent [of isAncestorOf "[fileReadme, folderDocs, fileB]"]
    by (simp add: once)
qed

subsection \<open>Closing the views of a deleted resource\<close>

lemma closeCalls_closes:
  "closeCalls (map (\<lambda>w. if P w then WidgetCloseWithoutSaving w else WidgetClose w) ws) = ws"
  by (induction ws) simp_all

text \<open>
  C6. \<open>delete\<close> first goes through the widgets that \<open>NavigatableWidget.getAffected\<close>
  gives for the resource (the views of the resource and of its descendants) and closes
  each one: a saveable widget with \<open>closeWithoutSaving()\<close>, which discards its changes,
  any other with \<open>close()\<close>. Only then does it call \<open>fileSystem.delete\<close> for the
  resource, and after that nothing but the log of a failure follows. No saveable widget
  is closed with the plain \<open>close()\<close>, the call that would ask about unsaved changes.
\<close>

theorem delete_closes_views_first:
  "trace (snd (delete h s uri)) =
     trace s @
     map (\<lambda>widget. if SaveableWidget_is h widget then WidgetCloseWithoutSaving widget
                    else WidgetClose widget)
       (map snd (NavigatableWidget_getAffected h (shell_widgets h) [uri])) @
     FileSystemDelete (uri_toString h uri) #
     (case fst (fileSystem_delete h (fileSystem s) (uri_toString h uri)) of
        Inl e \<Rightarrow> [ConsoleError e] | Inr _ \<Rightarrow> []) \<and>
   closeCalls (trace (snd (delete h s uri))) =
     closeCalls (trace s) @ map snd (NavigatableWidget_getAffected h (shell_widgets h) [uri]) \<and>
   (\<forall>widget. SaveableWidget_is h widget \<longrightarrow>
      WidgetClose widget \<notin> set (drop (length (trace s)) (trace (snd (delete h s uri)))))"
proof -
  let ?closes = "map (\<lambda>widget. if SaveableWidget_is h widget
      then WidgetCloseWithoutSaving widget else WidgetClose widget)
    (map snd (NavigatableWidget_getAffected h (shell_widgets h) [uri]))"
  let ?rest = "FileSystemDelete (uri_toString h uri) #
    (case fst (fileSystem_delete h (fileSystem s) (uri_toString h uri)) of
       Inl e \<Rightarrow> [ConsoleError e] | Inr _ \<Rightarrow> [])"
  have tr: "trace (snd (delete h s uri)) = trace s @ ?closes @ ?rest"
    by (rule trace_delete)
  have closes: "closeCalls ?closes = map snd (NavigatableWidget_getAffected h (shell_widgets h) [uri])"
    by (rule closeCalls_closes)
  have rest: "closeCalls ?rest = []"
    by (simp split: sum.split)
  have calls: "closeCalls (trace (snd (delete h s uri))) =
      closeCalls (trace s) @ map snd (NavigatableWidget_getAffected h (shell_widgets h) [uri])"
    unfolding tr closeCalls_append closes rest by simp
  have plain: "WidgetClose widget \<notin> set (drop (length (trace s)) (trace (snd (delete h s uri))))"
    if "SaveableWidget_is h widget" for widget
    unfolding tr using that by (auto split: sum.split)
  from tr calls plain show ?thesis
    by blast
qed

text \<open>
  Deleting the folder closes the preview of its file with \<open>close()\<close>; deleting
  \<open>/ws/A\<close> closes its dirty editor with \<open>closeWithoutSaving()\<close>; both before the
  file system is called.
\<close>

theorem delete_closes_views_first_witness:
  "SaveableWidget_is (workbench [] [editorA, previewReadme] None) editorA \<and>
   trace (snd (delete (workbench [] [editorA, previewReadme] None)
      (emptyTrace [''/ws/A'', ''/ws/docs'']) fileA)) =
     [WidgetCloseWithoutSaving editorA, FileSystemDelete ''/ws/A''] \<and>
   trace (snd (delete (workbench [] [editorA, previewReadme] None)
      (emptyTrace [''/ws/A'', ''/ws/docs'']) folderDocs)) =
     [WidgetClose previewReadme, FileSystemDelete ''/ws/docs'']"
proof -
  let ?h = "workbench [] [editorA, previewReadme] None"
  let ?s = "emptyTrace [''/ws/A'', ''/ws/docs'']"
  have saveable: "SaveableWidget_is ?h editorA" "\<not> SaveableWidget_is ?h previewReadme"
    by (simp_all add: workbench_def editorA_def previewReadme_def)
  have affected:
    "NavigatableWidget_getAffected ?h (shell_widgets ?h) [fileA] = [(fileA, editorA)]"
    "NavigatableWidget_getAffected ?h (shell_widgets ?h) [folderDocs] =
       [(fileReadme, previewReadme)]"
    by (simp_all add: workbench_def affectedViews_def editorA_def previewReadme_def
        fileA_def folderDocs_def fileReadme_def)
  have strings: "uri_toString ?h fileA = ''/ws/A''" "uri_toString ?h folderDocs = ''/ws/docs''"
    by (simp_all add: workbench_def resourceId_toString_def fileA_def folderDocs_def)
  have storage: "fileSystem_delete ?h (fileSystem ?s) ''/ws/A'' = (Inr (), [''/ws/docs''])"
    "fileSystem_delete ?h (fileSystem ?s) ''/ws/docs'' = (Inr (), [''/ws/A''])"
    by (simp_all add: workbench_def storage_delete_def emptyTrace_def)
  have empty: "trace ?s = []"
    by (simp add: emptyTrace_def)
  have a: "trace (snd (delete ?h ?s fileA)) =
      [WidgetCloseWithoutSaving editorA, FileSystemDelete ''/ws/A'']"
    using delete_closes_views_first [of ?h ?s fileA]
    unfolding affected strings storage empty by (simp add: saveable)
  have docs: "trace (snd (delete ?h ?s folderDocs)) =
      [WidgetClose previewReadme, FileSystemDelete ''/ws/docs'']"
    using delete_closes_views_first [of ?h ?s folderDocs]
    unfolding affected strings storage empty by (simp add: saveable)
  from saveable a docs show ?thesis
    by simp
qed

subsection \<open>The empty selection\<close>

text \<open>
  C7, as the code has it. \<open>execute\<close> has no guard for the empty selection. When
  the reduction of the empty selection is empty, \<open>execute\<close> opens the confirmation
  dialog, with the title "Delete Files", and does nothing else, whatever the answer: no
  widget is closed, \<open>fileSystem.delete\<close> is not called, nothing is logged, the file
  system stays as it was and \<open>execute\<close> is fulfilled.
\<close>

theorem execute_empty_selection:
  assumes "URI_getDistinctParents h [] = []"
  shows "fst (execute h s []) = Inr () \<and>
         trace (snd (execute h s [])) =
           trace s @ [ConfirmDialogOpen ''Delete Files'' (getConfirmMessage h [])] \<and>
         closeCalls (trace (snd (execute h s []))) = closeCalls (trace s) \<and>
         deleteCalls (trace (snd (execute h s []))) = deleteCalls (trace s) \<and>
         consoleErrors (trace (snd (execute h s []))) = consoleErrors (trace s) \<and>
         fileSystem (snd (execute h s [])) = fileSystem s"
  using assms
  by (simp add: execute_eq Let_def confirm_title_def trace_emit fileSystem_emit
      closeCalls_append deleteCalls_append consoleErrors_append)

text \<open>The user confirms the dialog about no file at all.\<close>

theorem execute_empty_selection_witness:
  "URI_getDistinctParents (workbench [workspaceRoot] [editorA] (Some True)) [] = [] \<and>
   execute (workbench [workspaceRoot] [editorA] (Some True)) (emptyTrace [''/ws/A'']) [] =
   (Inr (),
    \<lparr> fileSystem = [''/ws/A''],
      trace = [ConfirmDialogOpen ''Delete Files''
                 (getConfirmMessage (workbench [workspaceRoot] [editorA] (Some True)) [])] \<rparr>)"
proof -
  let ?h = "workbench [workspaceRoot] [editorA] (Some True)"
  have reduced: "URI_getDistinctParents ?h [] = []"
    by (simp add: workbench_def reduceToDistinctRoots_def)
  show ?thesis
    using execute_empty_selection [OF reduced, of "emptyTrace [''/ws/A'']"]
    by (simp add: reduced prod_eq_iff emptyTrace_def)
qed

text \<open>
  C7, as the specification has it, fails: on the empty selection a dialog is opened. Its
  message is the list form, with an empty list.
\<close>

theorem execute_empty_selection_opens_dialog:
  "dialogsOpened (trace (snd (execute (workbench [workspaceRoot] [editorA] (Some True))
      (emptyTrace [''/ws/A'']) []))) =
   [(''Delete Files'',
     Html (HTMLElement ''div'' ''Do you really want to delete the following files?'' []
            [HTMLElement ''ul'' [] ''none'' []]))]"
  by (simp add: execute_eq Let_def workbench_def reduceToDistinctRoots_def confirm_title_def
      getConfirmMessage_def getDirty_def affectedViews_def dirtyViews_def Map_values_def
      createElement_def emit_def emptyTrace_def)

end
